theory Spec2Isabelle
  imports Main
begin

section \<open>Python values used by scrap_table.py\<close>

text \<open>
  A Python \<open>str\<close> is a sequence of Unicode code points; a code point is a natural
  number here, so that the line boundaries and the white space beyond ASCII that
  \<open>str.splitlines\<close> and \<open>str.strip\<close> recognise are part of the model.
  Dictionary keys are program literals and stay Isabelle strings.
\<close>

type_synonym pystr = "nat list"

definition py :: "string \<Rightarrow> pystr" where
  "py cs = map of_char cs"

text \<open>The line boundaries of \<open>str.splitlines\<close>: LF, VT, FF, CR, FS, GS, RS, NEL, LS, PS.\<close>

definition is_linebreak :: "nat \<Rightarrow> bool" where
  "is_linebreak c = (c \<in> set [10, 11, 12, 13, 28, 29, 30, 133, 8232, 8233])"

text \<open>The white space of \<open>str.strip\<close> with no argument (\<open>str.isspace\<close>).\<close>

definition is_space :: "nat \<Rightarrow> bool" where
  "is_space c = (c \<in> set [9, 10, 11, 12, 13, 28, 29, 30, 31, 32, 133, 160, 5760,
      8192, 8193, 8194, 8195, 8196, 8197, 8198, 8199, 8200, 8201, 8202,
      8232, 8233, 8239, 8287, 12288])"

definition strip :: "pystr \<Rightarrow> pystr" where
  "strip s = rev (dropWhile is_space (rev (dropWhile is_space s)))"

text \<open>
  \<open>s.splitlines()\<close>: the text is cut at every line boundary, CR LF counting as one
  boundary; the boundaries are not kept, and a text that ends with a boundary has no
  empty last line. The first argument is the line read so far.
\<close>

fun splitlines_from :: "pystr \<Rightarrow> pystr \<Rightarrow> pystr list" where
  "splitlines_from cur [] = (if cur = [] then [] else [cur])"
| "splitlines_from cur [c] = (if is_linebreak c then [cur] else [cur @ [c]])"
| "splitlines_from cur (c # d # cs) =
     (if c = 13 \<and> d = 10 then cur # splitlines_from [] cs
      else if is_linebreak c then cur # splitlines_from [] (d # cs)
      else splitlines_from (cur @ [c]) (d # cs))"

definition splitlines :: "pystr \<Rightarrow> pystr list" where
  "splitlines s = splitlines_from [] s"

text \<open>\<open>sep.join(xs)\<close>.\<close>

fun join :: "pystr \<Rightarrow> pystr list \<Rightarrow> pystr" where
  "join sep [] = []"
| "join sep [x] = x"
| "join sep (x # y # ys) = x @ sep @ join sep (y # ys)"

text \<open>
  Line 50 of the source:
  \<^verbatim>\<open>" ".join([s.strip() for s in referencia.splitlines() if s.strip()])\<close>
\<close>

definition normalize_referencia :: "pystr \<Rightarrow> pystr" where
  "normalize_referencia referencia =
     join (py '' '') (map strip (filter (\<lambda>s. strip s \<noteq> []) (splitlines referencia)))"

subsection \<open>The reference normalization, as the specification words it\<close>

text \<open>
  Following the specification's sentence, not the source: split on line breaks (every
  line-break character separates two segments, so a segment may be empty), trim each
  segment, drop the empty segments, join the rest with one space.
\<close>

fun split_on_linebreaks_from :: "pystr \<Rightarrow> pystr \<Rightarrow> pystr list" where
  "split_on_linebreaks_from cur [] = [cur]"
| "split_on_linebreaks_from cur (c # cs) =
     (if is_linebreak c then cur # split_on_linebreaks_from [] cs
      else split_on_linebreaks_from (cur @ [c]) cs)"

definition spec_reference :: "pystr \<Rightarrow> pystr" where
  "spec_reference t =
     join (py '' '') (filter (\<lambda>s. s \<noteq> []) (map strip (split_on_linebreaks_from [] t)))"

section \<open>Values, exceptions and the environment\<close>

datatype pyval = Str pystr | NoneV

text \<open>
  A \<open>dict\<close> keeps its keys in insertion order, which the CSV header depends on:
  an association list with distinct keys, oldest key first.
\<close>

type_synonym item = "(string \<times> pyval) list"

definition dict_keys :: "item \<Rightarrow> string list" where
  "dict_keys d = map fst d"

text \<open>\<open>k in d\<close>\<close>

definition dict_contains :: "string \<Rightarrow> item \<Rightarrow> bool" where
  "dict_contains k d = (k \<in> set (dict_keys d))"

text \<open>\<open>d[k] = v\<close>: an existing key keeps its place, a new key goes last.\<close>

fun dict_set :: "item \<Rightarrow> string \<Rightarrow> pyval \<Rightarrow> item" where
  "dict_set [] k v = [(k, v)]"
| "dict_set ((k', v') # d) k v =
     (if k' = k then (k, v) # d else (k', v') # dict_set d k v)"

text \<open>\<open>d.get(k, default)\<close>\<close>

definition dict_get :: "item \<Rightarrow> string \<Rightarrow> pyval \<Rightarrow> pyval" where
  "dict_get d k dflt = (case map_of d k of None \<Rightarrow> dflt | Some v \<Rightarrow> v)"

text \<open>
  The exceptions the program can meet, all of them subclasses of \<open>Exception\<close>.
  \<open>RequestException\<close> stands for what \<open>requests.get\<close> raises (connection errors,
  timeouts), \<open>HTTPError\<close> for what \<open>raise_for_status\<close> raises,
  \<open>ParserRejectedMarkup\<close> for what \<open>BeautifulSoup\<close> raises when \<open>html.parser\<close> fails
  on the markup, \<open>UnicodeEncodeError\<close> for what writing a text with a lone surrogate to
  a UTF-8 file raises, \<open>ClientError\<close> for an error response of the DynamoDB service
  (throttling, a missing table), and \<open>BotoCoreError\<close> for botocore's other family
  (no endpoint connection, timeouts, no region), which is not a subclass of
  \<open>ClientError\<close>.
\<close>

datatype exn =
    RequestException string
  | HTTPError nat
  | ParserRejectedMarkup
  | ValueError string
  | UnicodeEncodeError
  | OSError string
  | ClientError string
  | BotoCoreError string

text \<open>
  A table row as the source observes it: \<open>row.find_all("td")\<close> with
  \<open>get_text(strip=True)\<close> of each cell, and the \<open>href\<close> of
  \<open>row.find("a", href=True)\<close> when the row has such a link.
\<close>

record row =
  tds :: "pystr list"
  a_href :: "pystr option"

text \<open>
  The library functions the source calls and whose code is not part of the repository:
  parsing and selecting (\<open>BeautifulSoup(text, "html.parser").select("table.table tbody tr")\<close>,
  lines 35 and 36), which raises on the few texts \<open>html.parser\<close> fails on (such as
  \<open><![ x]>\<close>) and gives the selected rows on all others; \<open>urllib.parse.urljoin\<close>, which
  raises \<open>ValueError\<close> on some malformed references (an unbalanced bracket in the host
  part); and \<open>int\<close> on a string.
\<close>

record lib =
  select_rows :: "pystr \<Rightarrow> exn + row list"
  urljoin :: "pystr \<Rightarrow> pystr \<Rightarrow> exn + pystr"
  py_int :: "string \<Rightarrow> exn + int"

text \<open>What \<open>requests.get\<close> does: it raises, or returns a response (status code, text).\<close>

datatype http_outcome = GetRaises exn | Response nat pystr

text \<open>
  The outside world of one run: the HTTP exchange, the values \<open>uuid4\<close> produces (the
  k-th call), what DynamoDB does (creating the resource, the i-th \<open>put_item\<close> of the
  batch, leaving the batch writer, which flushes), what the file system does (opening
  a path for writing, the i-th write to it, the header being write 0, and closing it,
  which flushes: a full disk shows at a write or at the close), and the process
  environment.
\<close>

record env =
  http :: http_outcome
  uuid4 :: "nat \<Rightarrow> pystr"
  resource_error :: "exn option"
  put_error :: "nat \<Rightarrow> exn option"
  exit_error :: "exn option"
  open_error :: "string \<Rightarrow> exn option"
  write_error :: "string \<Rightarrow> nat \<Rightarrow> exn option"
  close_error :: "string \<Rightarrow> exn option"
  environ :: "string \<Rightarrow> string option"

datatype log_entry =
    Info_Fetching
  | Error_Download exn
  | Info_Rows nat
  | Error_Row nat exn
  | Info_No_Items_CSV
  | Info_Saved_CSV nat string
  | Info_No_Items_DynamoDB
  | Info_Saved_DynamoDB nat string
  | Error_DynamoDB exn

text \<open>Calls of the sinks and of the remote store, in the order they happen.\<close>

datatype event =
    Call_save_to_csv "item list" string
  | Call_save_to_dynamodb "item list" string
  | Boto3_resource
  | Put_item item
  | Batch_exit

text \<open>
  A CSV file is its rows of cells, the header first. After a write or a close that
  failed, what the file holds is not determined by the program.
\<close>

datatype csv_file = Rows "pystr list list" | Undetermined

text \<open>
  What a run changes: the log, the files, the number of \<open>uuid4\<close> calls made, and the
  calls made.
\<close>

record world =
  log :: "log_entry list"
  files :: "string \<Rightarrow> csv_file option"
  uuid_count :: nat
  trace :: "event list"

definition logger :: "log_entry \<Rightarrow> world \<Rightarrow> world" where
  "logger m w = w\<lparr>log := log w @ [m]\<rparr>"

definition record_event :: "event \<Rightarrow> world \<Rightarrow> world" where
  "record_event e w = w\<lparr>trace := trace w @ [e]\<rparr>"

section \<open>fetch_latest_sismos\<close>

definition BASE_URL :: pystr where
  "BASE_URL = py ''https://ultimosismo.igp.gob.pe''"

text \<open>\<open>Response.raise_for_status\<close> of requests: a 4xx or 5xx status raises.\<close>

definition raise_for_status :: "nat \<Rightarrow> exn + unit" where
  "raise_for_status status =
     (if 400 \<le> status \<and> status < 600 then Inl (HTTPError status) else Inr ())"

text \<open>The body of the first \<open>try\<close> (lines 29 and 30); its value is \<open>resp.text\<close>.\<close>

definition http_get :: "env \<Rightarrow> exn + pystr" where
  "http_get E =
     (case http E of
        GetRaises e \<Rightarrow> Inl e
      | Response status text \<Rightarrow>
          (case raise_for_status status of Inl e \<Rightarrow> Inl e | Inr _ \<Rightarrow> Inr text))"

text \<open>\<open>tds[i].get_text(strip=True) if len(tds) > i else ""\<close>\<close>

definition cell_text :: "pystr list \<Rightarrow> nat \<Rightarrow> pystr" where
  "cell_text cells i = (if length cells > i then cells ! i else [])"

text \<open>Lines 46 to 48: an absent link and an empty \<open>href\<close> both give \<open>None\<close>.\<close>

definition resolve_link :: "lib \<Rightarrow> pystr option \<Rightarrow> exn + pyval" where
  "resolve_link L href =
     (case href of
        None \<Rightarrow> Inr NoneV
      | Some h \<Rightarrow>
          (if h = [] then Inr NoneV
           else (case urljoin L BASE_URL h of Inl e \<Rightarrow> Inl e | Inr u \<Rightarrow> Inr (Str u))))"

text \<open>The body of the second \<open>try\<close> (lines 41 to 57): the item, or what was raised.\<close>

definition parse_row :: "lib \<Rightarrow> row \<Rightarrow> exn + item" where
  "parse_row L r =
     (let referencia = cell_text (tds r) 0;
          fecha_hora = cell_text (tds r) 2;
          magnitud = cell_text (tds r) 3
      in case resolve_link L (a_href r) of
           Inl e \<Rightarrow> Inl e
         | Inr reporte_url \<Rightarrow>
             Inr [(''referencia'', Str (normalize_referencia referencia)),
                  (''reporte_url'', reporte_url),
                  (''fecha_hora'', Str fecha_hora),
                  (''magnitud'', Str magnitud)])"

text \<open>\<open>xs[:limit]\<close>; a negative limit counts from the end.\<close>

definition slice_to :: "int \<Rightarrow> 'a list \<Rightarrow> 'a list" where
  "slice_to limit xs =
     (if 0 \<le> limit then take (nat limit) xs else take (length xs - nat (- limit)) xs)"

text \<open>The loop of lines 39 to 60, from row number \<open>i\<close> on.\<close>

fun fetch_loop :: "lib \<Rightarrow> nat \<Rightarrow> row list \<Rightarrow> item list \<Rightarrow> world \<Rightarrow> item list \<times> world" where
  "fetch_loop L i [] results w = (results, w)"
| "fetch_loop L i (r # rs) results w =
     (case parse_row L r of
        Inr item \<Rightarrow> fetch_loop L (Suc i) rs (results @ [item]) w
      | Inl e \<Rightarrow> fetch_loop L (Suc i) rs results (logger (Error_Row i e) w))"

text \<open>
  Lines 25 to 62. The parse and the selection of lines 35 and 36 stand between the two
  \<open>try\<close> blocks: what they raise is raised by \<open>fetch_latest_sismos\<close>.
\<close>

definition fetch_latest_sismos :: "lib \<Rightarrow> env \<Rightarrow> int \<Rightarrow> world \<Rightarrow> (exn + item list) \<times> world" where
  "fetch_latest_sismos L E limit w =
     (let w1 = logger Info_Fetching w in
      case http_get E of
        Inl e \<Rightarrow> (Inr [], logger (Error_Download e) w1)
      | Inr text \<Rightarrow>
          (case select_rows L text of
             Inl e \<Rightarrow> (Inl e, w1)
           | Inr rows \<Rightarrow>
               (let w2 = logger (Info_Rows (length rows)) w1;
                    (results, w3) = fetch_loop L 0 (slice_to limit rows) [] w2
                in (Inr results, w3))))"

section \<open>save_to_csv\<close>

text \<open>What \<open>csv.writer\<close> writes for a value: \<open>None\<close> is the empty field.\<close>

definition csv_cell :: "pyval \<Rightarrow> pystr" where
  "csv_cell v = (case v of Str s \<Rightarrow> s | NoneV \<Rightarrow> [])"

text \<open>
  The cells \<open>DictWriter\<close> makes of a row, \<open>rowdict.get(key, restval)\<close> for every field
  name, with the default \<open>restval=""\<close>.
\<close>

definition row_cells :: "string list \<Rightarrow> item \<Rightarrow> pystr list" where
  "row_cells fieldnames it = map (\<lambda>k. csv_cell (dict_get it k (Str []))) fieldnames"

text \<open>
  \<open>DictWriter._dict_to_list\<close> with the default \<open>extrasaction="raise"\<close>: a key of the row
  that is no field name raises \<open>ValueError\<close>.
\<close>

definition dict_to_list :: "string list \<Rightarrow> item \<Rightarrow> exn + pystr list" where
  "dict_to_list fieldnames it =
     (if list_ex (\<lambda>k. k \<notin> set fieldnames) (dict_keys it)
      then Inl (ValueError ''dict contains fields not in fieldnames'')
      else Inr (row_cells fieldnames it))"

text \<open>
  The file is opened with \<open>encoding="utf-8"\<close>: a text with a lone surrogate (a code
  point from D800 to DFFF) cannot be written.
\<close>

definition is_surrogate :: "nat \<Rightarrow> bool" where
  "is_surrogate c = (55296 \<le> c \<and> c \<le> 57343)"

definition utf8_encodable :: "pystr \<Rightarrow> bool" where
  "utf8_encodable s = list_all (\<lambda>c. \<not> is_surrogate c) s"

text \<open>
  Lines 74 and 75, \<open>i\<close> being the number of the next write. A row is written whole or
  not at all: \<open>writerow\<close> raises \<open>ValueError\<close> before it makes the line, the encoder
  raises \<open>UnicodeEncodeError\<close> before anything of the line reaches the file, and then
  the write itself may fail. The second component is what the file holds.
\<close>

fun writerows ::
    "env \<Rightarrow> string \<Rightarrow> string list \<Rightarrow> nat \<Rightarrow> item list \<Rightarrow> pystr list list \<Rightarrow> exn option \<times> csv_file" where
  "writerows E path fieldnames i [] written = (None, Rows written)"
| "writerows E path fieldnames i (it # its) written =
     (case dict_to_list fieldnames it of
        Inl e \<Rightarrow> (Some e, Rows written)
      | Inr cells \<Rightarrow>
          (if \<not> list_all utf8_encodable cells then (Some UnicodeEncodeError, Rows written)
           else (case write_error E path i of
                   Some e \<Rightarrow> (Some e, Undetermined)
                 | None \<Rightarrow> writerows E path fieldnames (Suc i) its (written @ [cells]))))"

text \<open>
  Lines 65 to 77. The \<open>with\<close> statement closes the file also when its body raised, and
  an exception of the close is the one that propagates. The header is made of the
  keys, which are program literals and can always be encoded.
\<close>

definition save_to_csv :: "env \<Rightarrow> item list \<Rightarrow> string \<Rightarrow> world \<Rightarrow> (exn + unit) \<times> world" where
  "save_to_csv E items path w =
     (let w0 = record_event (Call_save_to_csv items path) w in
      case items of
        [] \<Rightarrow> (Inr (), logger Info_No_Items_CSV w0)
      | first # _ \<Rightarrow>
          (let keys = dict_keys first in
           case open_error E path of
             Some e \<Rightarrow> (Inl e, w0)
           | None \<Rightarrow>
               (let (raised, content) =
                      (case write_error E path 0 of
                         Some e \<Rightarrow> (Some e, Undetermined)
                       | None \<Rightarrow> writerows E path keys 1 items [map py keys]);
                    (raised', content') =
                      (case close_error E path of
                         Some e \<Rightarrow> (Some e, Undetermined)
                       | None \<Rightarrow> (raised, content));
                    w1 = w0\<lparr>files := (files w0)(path \<mapsto> content')\<rparr>
                in case raised' of
                     Some e \<Rightarrow> (Inl e, w1)
                   | None \<Rightarrow> (Inr (), logger (Info_Saved_CSV (length items) path) w1))))"

section \<open>save_to_dynamodb\<close>

text \<open>
  The loop of lines 90 to 96, from item number \<open>i\<close> on. The dictionaries are the
  caller's: the second component is their state when the loop stops, at its end or at
  the first \<open>put_item\<close> that raises. The list holds one dictionary per position, as
  \<open>fetch_latest_sismos\<close> builds it (a new dictionary for every row), so the state of
  the dictionaries is the list of their contents.
\<close>

fun put_items :: "env \<Rightarrow> nat \<Rightarrow> item list \<Rightarrow> world \<Rightarrow> exn option \<times> item list \<times> world" where
  "put_items E i [] w = (None, [], w)"
| "put_items E i (it # its) w =
     (let (it', w1) =
            (if \<not> dict_contains ''id'' it
             then (dict_set it ''id'' (Str (uuid4 E (uuid_count w))),
                   w\<lparr>uuid_count := Suc (uuid_count w)\<rparr>)
             else (it, w));
          w2 = record_event (Put_item it') w1
      in case put_error E i of
           Some e \<Rightarrow> (Some e, it' # its, w2)
         | None \<Rightarrow>
             (let (r, its', w3) = put_items E (Suc i) its w2 in (r, it' # its', w3)))"

text \<open>
  The \<open>with\<close> statement: leaving the batch writer flushes what is buffered, also when
  the body raised, and an exception of the flush is the one that propagates.
\<close>

definition with_batch_writer :: "env \<Rightarrow> item list \<Rightarrow> world \<Rightarrow> exn option \<times> item list \<times> world" where
  "with_batch_writer E items w =
     (let (raised, items', w1) = put_items E 0 items w;
          w2 = record_event Batch_exit w1
      in (case exit_error E of Some e \<Rightarrow> (Some e, items', w2) | None \<Rightarrow> (raised, items', w2)))"

text \<open>\<open>except ClientError\<close> catches what is an instance of \<open>ClientError\<close>.\<close>

definition is_ClientError :: "exn \<Rightarrow> bool" where
  "is_ClientError e = (case e of ClientError _ \<Rightarrow> True | _ \<Rightarrow> False)"

text \<open>
  The result, the caller's dictionaries after the call, and the world. Creating the
  resource is outside the \<open>try\<close>; inside it, only \<open>ClientError\<close> is caught (line 99).
\<close>

definition save_to_dynamodb ::
    "env \<Rightarrow> item list \<Rightarrow> string \<Rightarrow> world \<Rightarrow> (exn + bool) \<times> item list \<times> world" where
  "save_to_dynamodb E items table_name w =
     (let w0 = record_event (Call_save_to_dynamodb items table_name) w in
      if items = [] then (Inr True, items, logger Info_No_Items_DynamoDB w0)
      else
        (let w1 = record_event Boto3_resource w0 in
         case resource_error E of
           Some e \<Rightarrow> (Inl e, items, w1)
         | None \<Rightarrow>
             (let (raised, items', w2) = with_batch_writer E items w1 in
              case raised of
                None \<Rightarrow>
                  (Inr True, items',
                   logger (Info_Saved_DynamoDB (length items) table_name) w2)
              | Some e \<Rightarrow>
                  (if is_ClientError e then (Inr False, items', logger (Error_DynamoDB e) w2)
                   else (Inl e, items', w2)))))"

section \<open>lambda_handler\<close>

text \<open>\<open>os.environ.get(k, default)\<close>\<close>

definition environ_get :: "env \<Rightarrow> string \<Rightarrow> string \<Rightarrow> string" where
  "environ_get E k dflt = (case environ E k of None \<Rightarrow> dflt | Some v \<Rightarrow> v)"

text \<open>The truth value of \<open>os.environ.get(k)\<close>: unset and the empty string are falsy.\<close>

definition truthy :: "string option \<Rightarrow> bool" where
  "truthy v = (case v of None \<Rightarrow> False | Some t \<Rightarrow> t \<noteq> [])"

text \<open>
  Lines 113 to 121. The items handed to \<open>save_to_csv\<close> and returned in the body are
  the caller's dictionaries, in the state \<open>save_to_dynamodb\<close> left them in. The value
  is the returned dictionary: the status code and the body.
\<close>

definition lambda_handler_persist :: "env \<Rightarrow> item list \<Rightarrow> world \<Rightarrow> (exn + nat \<times> item list) \<times> world" where
  "lambda_handler_persist E items w =
     (let table_name = environ E ''DDB_TABLE'' in
      case (case table_name of
              None \<Rightarrow> (Inr False, items, w)
            | Some t \<Rightarrow>
                (if t \<noteq> [] then save_to_dynamodb E items t w else (Inr False, items, w))) of
        (Inl e, items', w1) \<Rightarrow> (Inl e, w1)
      | (Inr saved, items', w1) \<Rightarrow>
          (if \<not> truthy table_name \<or> \<not> saved
           then (case save_to_csv E items' (environ_get E ''CSV_PATH'' ''sismos.csv'') w1 of
                   (Inl e, w2) \<Rightarrow> (Inl e, w2)
                 | (Inr _, w2) \<Rightarrow> (Inr (200, items'), w2))
           else (Inr (200, items'), w1)))"

definition lambda_handler :: "lib \<Rightarrow> env \<Rightarrow> world \<Rightarrow> (exn + nat \<times> item list) \<times> world" where
  "lambda_handler L E w =
     (case py_int L (environ_get E ''LIMIT'' ''10'') of
        Inl e \<Rightarrow> (Inl e, w)
      | Inr limit \<Rightarrow>
          (case fetch_latest_sismos L E limit w of
             (Inl e, w1) \<Rightarrow> (Inl e, w1)
           | (Inr items, w1) \<Rightarrow> lambda_handler_persist E items w1))"

section \<open>Vocabulary of the statements\<close>

text \<open>The calls of \<open>save_to_csv\<close> in a trace, with the items each one was given.\<close>

fun csv_calls :: "event list \<Rightarrow> item list list" where
  "csv_calls [] = []"
| "csv_calls (Call_save_to_csv its path # es) = its # csv_calls es"
| "csv_calls (e # es) = csv_calls es"

text \<open>
  What the loop of \<open>save_to_dynamodb\<close> may have done to a dictionary: nothing, or, when
  it had no \<open>id\<close>, added that key after the others.
\<close>

definition id_added :: "item \<Rightarrow> item \<Rightarrow> bool" where
  "id_added it it' =
     (it' = it \<or>
      (\<not> dict_contains ''id'' it \<and> take (length it) it' = it
         \<and> dict_keys it' = dict_keys it @ [''id'']))"

text \<open>
  The header that \<open>save_to_csv\<close> takes from the first item has a column for every key
  of every item: the condition under which \<open>DictWriter.writerow\<close> raises no
  \<open>ValueError\<close>.
\<close>

definition header_covers :: "item list \<Rightarrow> bool" where
  "header_covers its =
     list_all (\<lambda>it. list_all (\<lambda>k. k \<in> set (dict_keys (hd its))) (dict_keys it)) its"

text \<open>Every cell that \<open>save_to_csv\<close> makes of the items can be encoded in UTF-8.\<close>

definition rows_encodable :: "item list \<Rightarrow> bool" where
  "rows_encodable its =
     list_all (\<lambda>it. list_all utf8_encodable (row_cells (dict_keys (hd its)) it)) its"

text \<open>The header and one row of cells for each item.\<close>

definition csv_rows :: "item list \<Rightarrow> pystr list list" where
  "csv_rows its = map py (dict_keys (hd its)) # map (row_cells (dict_keys (hd its))) its"

definition four_fields :: "string list" where
  "four_fields = [''referencia'', ''reporte_url'', ''fecha_hora'', ''magnitud'']"

section \<open>A sample page and environment\<close>

text \<open>
  Two rows as they come out of the page: a full one with a relative link and a reference
  over two lines, and one with two cells and no link. The sample parser finds them in
  the text \<open>page\<close>, rejects the text \<open><![ x]>\<close> as \<open>html.parser\<close> does, and finds no
  row elsewhere. The sample \<open>urljoin\<close> appends the reference to the base, which is what
  \<open>urljoin\<close> does for a base without path and a reference that is an absolute path.
\<close>

definition example_row_long :: row where
  "example_row_long =
     \<lparr>tds = [py ''Lima\<newline>  , 10km'', py ''IGP/CENSIS/RS 2024-0001'',
             py ''01/01/2024 10:00:00'', py ''4.5''],
      a_href = Some (py ''/reporte/123'')\<rparr>"

definition example_row_short :: row where
  "example_row_short = \<lparr>tds = [py ''Ica'', py ''IGP''], a_href = None\<rparr>"

definition example_lib :: lib where
  "example_lib =
     \<lparr>select_rows = (\<lambda>t. if t = py ''page'' then Inr [example_row_long, example_row_short]
                          else if t = py ''<![ x]>'' then Inl ParserRejectedMarkup
                          else Inr []),
      urljoin = (\<lambda>b u. Inr (b @ u)),
      py_int = (\<lambda>s. if s = ''10'' then Inr 10 else Inl (ValueError ''invalid literal for int()''))\<rparr>"

definition example_env :: env where
  "example_env =
     \<lparr>http = Response 200 (py ''page''), uuid4 = (\<lambda>k. [k]), resource_error = None,
      put_error = (\<lambda>i. None), exit_error = None, open_error = (\<lambda>p. None),
      write_error = (\<lambda>p i. None), close_error = (\<lambda>p. None),
      environ = (\<lambda>k. None)\<rparr>"

definition example_world :: world where
  "example_world = \<lparr>log = [], files = (\<lambda>p. None), uuid_count = 0, trace = []\<rparr>"

definition example_item_long :: item where
  "example_item_long =
     [(''referencia'', Str (py ''Lima , 10km'')),
      (''reporte_url'', Str (py ''https://ultimosismo.igp.gob.pe/reporte/123'')),
      (''fecha_hora'', Str (py ''01/01/2024 10:00:00'')),
      (''magnitud'', Str (py ''4.5''))]"

definition example_item_short :: item where
  "example_item_short =
     [(''referencia'', Str (py ''Ica'')),
      (''reporte_url'', NoneV),
      (''fecha_hora'', Str []),
      (''magnitud'', Str [])]"

definition example_item_with_id :: item where
  "example_item_with_id = example_item_short @ [(''id'', Str (py ''0b5c1f0e''))]"

text \<open>A record whose reference is the lone surrogate U+D800.\<close>

definition example_item_surrogate :: item where
  "example_item_surrogate =
     [(''referencia'', Str [55296]),
      (''reporte_url'', NoneV),
      (''fecha_hora'', Str []),
      (''magnitud'', Str [])]"

text \<open>A world in which the destination file already exists.\<close>

definition example_world_old_file :: world where
  "example_world_old_file =
     example_world
       \<lparr>files := (\<lambda>p. if p = ''sismos.csv'' then Some (Rows [[py ''old'']]) else None)\<rparr>"

text \<open>
  Environments with a DynamoDB table configured: one whose endpoint cannot be reached
  (the flush on leaving the batch writer raises botocore's \<open>EndpointConnectionError\<close>),
  one that is throttled at that flush, and one that is throttled at the 25th \<open>put_item\<close>,
  where the batch writer sends its first full batch.
\<close>

definition example_env_table :: env where
  "example_env_table =
     example_env\<lparr>environ := (\<lambda>k. if k = ''DDB_TABLE'' then Some ''sismos'' else None)\<rparr>"

definition example_env_unreachable :: env where
  "example_env_unreachable =
     example_env_table\<lparr>exit_error := Some (BotoCoreError ''EndpointConnectionError'')\<rparr>"

definition example_env_throttled :: env where
  "example_env_throttled =
     example_env_table\<lparr>exit_error := Some (ClientError ''ProvisionedThroughputExceededException'')\<rparr>"



section \<open>Reference normalization\<close>

lemma strip_Nil: "strip [] = []"
  by (simp add: strip_def)

lemma filter_splitlines_from:
  "filter (\<lambda>s. strip s \<noteq> []) (splitlines_from cur t) =
   filter (\<lambda>s. strip s \<noteq> []) (split_on_linebreaks_from cur t)"
proof (induction cur t rule: splitlines_from.induct)
  case (1 cur)
  then show ?case by (simp add: strip_Nil)
next
  case (2 cur c)
  then show ?case by (simp add: strip_Nil)
next
  case (3 cur c d cs)
  have lb: "is_linebreak 13" "is_linebreak 10"
    by (simp_all add: is_linebreak_def)
  show ?case
  proof (cases "c = 13 \<and> d = 10")
    case True
    with 3 lb show ?thesis by (simp add: strip_Nil)
  next
    case False
    with 3 show ?thesis by (cases "is_linebreak c") auto
  qed
qed

lemma normalize_referencia_spec: "normalize_referencia t = spec_reference t"
proof -
  have "map strip (filter (\<lambda>s. strip s \<noteq> []) (splitlines t)) =
        filter (\<lambda>s. s \<noteq> []) (map strip (split_on_linebreaks_from [] t))"
    by (simp add: splitlines_def filter_splitlines_from filter_map comp_def)
  then show ?thesis
    by (simp add: normalize_referencia_def spec_reference_def)
qed

lemmas text_defs =
  normalize_referencia_def py_def splitlines_def is_linebreak_def strip_def is_space_def

lemmas row_defs =
  parse_row_def resolve_link_def BASE_URL_def cell_text_def text_defs

section \<open>The fetch pipeline\<close>

lemma parse_example_row_long: "parse_row example_lib example_row_long = Inr example_item_long"
  by (simp add: example_lib_def example_row_long_def example_item_long_def row_defs)

lemma parse_example_row_short: "parse_row example_lib example_row_short = Inr example_item_short"
  by (simp add: example_lib_def example_row_short_def example_item_short_def row_defs)

lemma select_example_page:
  "select_rows example_lib (py ''page'') = Inr [example_row_long, example_row_short]"
  by (simp add: example_lib_def)

lemma fetch_loop_results:
  "fst (fetch_loop L i rs acc w) =
   acc @ map (\<lambda>r. projr (parse_row L r)) (filter (\<lambda>r. \<not> isl (parse_row L r)) rs)"
  by (induction rs arbitrary: i acc w) (auto split: sum.splits)

lemma fetch_loop_all_parsed:
  assumes "list_all (\<lambda>r. \<not> isl (parse_row L r)) rs"
  shows "fst (fetch_loop L i rs acc w) = acc @ map (\<lambda>r. projr (parse_row L r)) rs"
proof -
  from assms have "filter (\<lambda>r. \<not> isl (parse_row L r)) rs = rs"
    by (simp add: list_all_iff)
  then show ?thesis by (simp add: fetch_loop_results)
qed

lemma fetch_results_on_response:
  assumes "http E = Response status text" and "\<not> (400 \<le> status \<and> status < 600)"
  shows "fst (fetch_latest_sismos L E limit w) =
         (case select_rows L text of
            Inl e \<Rightarrow> Inl e
          | Inr rows \<Rightarrow>
              Inr (fst (fetch_loop L 0 (slice_to limit rows) []
                     (logger (Info_Rows (length rows)) (logger Info_Fetching w)))))"
  using assms
  by (auto simp: fetch_latest_sismos_def http_get_def raise_for_status_def Let_def
      split: prod.splits sum.splits)

lemma fetch_on_failure:
  assumes "http_get E = Inl e"
  shows "fetch_latest_sismos L E limit w =
         (Inr [], logger (Error_Download e) (logger Info_Fetching w))"
  using assms by (simp add: fetch_latest_sismos_def Let_def)

lemma isl_parse_row: "isl (parse_row L r) = isl (resolve_link L (a_href r))"
  by (simp add: parse_row_def Let_def split: sum.splits)

lemma fetch_example_page:
  assumes "http E = Response status (py ''page'')" and "\<not> (400 \<le> status \<and> status < 600)"
  shows "fst (fetch_latest_sismos example_lib E 10 w) = Inr [example_item_long, example_item_short]"
  by (simp add: fetch_results_on_response [OF assms] select_example_page slice_to_def
      parse_example_row_long parse_example_row_short)




text \<open>
  Claim C4. For a limit that is not negative and a page that was fetched and is well
  formed (the parser accepts it, and the link of every row read is absent, empty or
  accepted by \<open>urljoin\<close>, so no row is skipped), \<open>fetch_latest_sismos\<close> returns exactly
  min(N, limit) records, N being the number of rows selected from the page, and the
  i-th record is the one made from the i-th row.
\<close>

theorem fetch_returns_min_rows:
  assumes "0 \<le> limit"
    and "http E = Response status text" and "\<not> (400 \<le> status \<and> status < 600)"
    and "select_rows L text = Inr rows"
    and "list_all (\<lambda>r. \<not> isl (resolve_link L (a_href r))) (take (nat limit) rows)"
  shows "\<exists>rs. fst (fetch_latest_sismos L E limit w) = Inr rs
           \<and> length rs = min (length rows) (nat limit)
           \<and> (\<forall>i < length rs. parse_row L (rows ! i) = Inr (rs ! i))"
proof -
  let ?rows = "take (nat limit) rows"
  let ?rs = "map (\<lambda>r. projr (parse_row L r)) ?rows"
  from assms(5) have ok: "list_all (\<lambda>r. \<not> isl (parse_row L r)) ?rows"
    by (simp add: isl_parse_row)
  have sl: "slice_to limit rows = ?rows"
    using assms(1) by (simp add: slice_to_def)
  have res: "fst (fetch_latest_sismos L E limit w) = Inr ?rs"
    by (simp add: fetch_results_on_response [OF assms(2,3)] assms(4) sl
        fetch_loop_all_parsed [OF ok])
  have len: "length ?rs = min (length rows) (nat limit)"
    by simp
  have nth: "parse_row L (rows ! i) = Inr (?rs ! i)" if "i < length ?rs" for i
  proof -
    from that have i: "i < length ?rows" by simp
    then have "?rows ! i \<in> set ?rows" by (rule nth_mem)
    with ok have "\<not> isl (parse_row L (?rows ! i))" by (simp add: list_all_iff)
    then have "parse_row L (?rows ! i) = Inr (projr (parse_row L (?rows ! i)))"
      by (cases "parse_row L (?rows ! i)") simp_all
    with i show ?thesis by simp
  qed
  from res len nth show ?thesis by blast
qed

theorem fetch_returns_min_rows_witness:
  "\<exists>rs. fst (fetch_latest_sismos example_lib example_env 1 example_world) = Inr rs
      \<and> length rs = 1 \<and> parse_row example_lib example_row_long = Inr (rs ! 0)"
proof -
  have h1: "(0::int) \<le> 1" by simp
  have h2: "http example_env = Response 200 (py ''page'')"
    by (simp add: example_env_def)
  have h3: "\<not> (400 \<le> (200::nat) \<and> (200::nat) < 600)" by simp
  have h4: "list_all (\<lambda>r. \<not> isl (resolve_link example_lib (a_href r)))
              (take (nat 1) [example_row_long, example_row_short])"
    by (simp add: resolve_link_def example_row_long_def example_lib_def)
  from fetch_returns_min_rows [OF h1 h2 h3 select_example_page h4, of example_world]
  show ?thesis by fastforce
qed

text \<open>
  Claim C5. The reference is made from cell 0, the timestamp is cell 2 and the magnitude
  is cell 3, a cell the row does not have counting as the empty string; the row is
  emitted (the loop appends its record) however few cells it has, in particular with an
  empty magnitude when cell 3 is missing. A row is skipped only when resolving its
  link raises, which the number of cells has no part in.
\<close>

theorem cells_mapping:
  assumes "resolve_link L (a_href r) = Inr u"
  shows "\<exists>it. parse_row L r = Inr it
           \<and> fst (fetch_loop L i [r] acc w) = acc @ [it]
           \<and> dict_get it ''referencia'' NoneV = Str (normalize_referencia ((tds r @ replicate 4 []) ! 0))
           \<and> dict_get it ''fecha_hora'' NoneV = Str ((tds r @ replicate 4 []) ! 2)
           \<and> dict_get it ''magnitud'' NoneV = Str ((tds r @ replicate 4 []) ! 3)
           \<and> (length (tds r) \<le> 3 \<longrightarrow> dict_get it ''magnitud'' NoneV = Str [])"
proof -
  have pad: "cell_text cells k = (cells @ replicate 4 []) ! k" if "k < 4"
    for cells :: "pystr list" and k
    using that by (simp add: cell_text_def nth_append)
  let ?it = "[(''referencia'', Str (normalize_referencia (cell_text (tds r) 0))),
              (''reporte_url'', u),
              (''fecha_hora'', Str (cell_text (tds r) 2)),
              (''magnitud'', Str (cell_text (tds r) 3))]"
  have p: "parse_row L r = Inr ?it"
    using assms by (simp add: parse_row_def Let_def)
  have l: "fst (fetch_loop L i [r] acc w) = acc @ [?it]"
    by (simp add: p)
  have a: "dict_get ?it ''referencia'' NoneV =
           Str (normalize_referencia ((tds r @ replicate 4 []) ! 0))"
    by (simp add: dict_get_def pad [symmetric])
  have b: "dict_get ?it ''fecha_hora'' NoneV = Str ((tds r @ replicate 4 []) ! 2)"
    by (simp add: dict_get_def pad [symmetric])
  have c: "dict_get ?it ''magnitud'' NoneV = Str ((tds r @ replicate 4 []) ! 3)"
    by (simp add: dict_get_def pad [symmetric])
  have d: "length (tds r) \<le> 3 \<longrightarrow> dict_get ?it ''magnitud'' NoneV = Str []"
    by (simp add: dict_get_def cell_text_def)
  from p l a b c d show ?thesis by blast
qed

theorem cells_mapping_witness:
  "\<exists>it. parse_row example_lib example_row_short = Inr it
      \<and> dict_get it ''referencia'' NoneV = Str (py ''Ica'')
      \<and> dict_get it ''fecha_hora'' NoneV = Str []
      \<and> dict_get it ''magnitud'' NoneV = Str []"
proof -
  have h: "resolve_link example_lib (a_href example_row_short) = Inr NoneV"
    by (simp add: resolve_link_def example_row_short_def)
  have n: "normalize_referencia (py ''Ica'') = py ''Ica''"
    by (simp add: text_defs)
  from cells_mapping [OF h, of 0 "[]" example_world] n show ?thesis
    by (auto simp: example_row_short_def)
qed

text \<open>
  Claim C6. The reference of a record is the text of cell 0 split on line breaks, each
  segment trimmed, the empty segments dropped and the rest joined with one space
  (\<open>spec_reference\<close>, written after the specification); the text
  \<open>"  Lima\n  , 10km\n"\<close> becomes \<open>"Lima , 10km"\<close>.
\<close>

theorem referencia_normalized:
  "(parse_row L r = Inr it \<longrightarrow>
      dict_get it ''referencia'' NoneV = Str (spec_reference (cell_text (tds r) 0)))
   \<and> normalize_referencia (py ''  Lima\<newline>  , 10km\<newline>'') = py ''Lima , 10km''"
proof (intro conjI impI)
  assume "parse_row L r = Inr it"
  then show "dict_get it ''referencia'' NoneV = Str (spec_reference (cell_text (tds r) 0))"
    by (auto simp: parse_row_def Let_def dict_get_def normalize_referencia_spec split: sum.splits)
next
  show "normalize_referencia (py ''  Lima\<newline>  , 10km\<newline>'') = py ''Lima , 10km''"
    by (simp add: text_defs)
qed

theorem referencia_normalized_witness:
  "parse_row example_lib example_row_long = Inr example_item_long
   \<and> dict_get example_item_long ''referencia'' NoneV = Str (py ''Lima , 10km'')
   \<and> Str (py ''Lima , 10km'') = Str (spec_reference (py ''Lima\<newline>  , 10km''))"
proof -
  have g: "dict_get example_item_long ''referencia'' NoneV = Str (py ''Lima , 10km'')"
    by (simp add: dict_get_def example_item_long_def)
  have c: "cell_text (tds example_row_long) 0 = py ''Lima\<newline>  , 10km''"
    by (simp add: cell_text_def example_row_long_def)
  from referencia_normalized [of example_lib example_row_long example_item_long]
    parse_example_row_long g c
  show ?thesis by simp
qed

lemma fetch_loop_uuid_count: "uuid_count (snd (fetch_loop L i rs acc w)) = uuid_count w"
  by (induction rs arbitrary: i acc w) (auto simp: logger_def split: sum.splits)

lemma fetch_uuid_count: "uuid_count (snd (fetch_latest_sismos L E limit w)) = uuid_count w"
proof (cases "http_get E")
  case (Inl e)
  then show ?thesis by (simp add: fetch_on_failure logger_def)
next
  case (Inr body)
  show ?thesis
  proof (cases "select_rows L body")
    case (Inl e)
    with Inr show ?thesis by (simp add: fetch_latest_sismos_def Let_def logger_def)
  next
    case rows: (Inr rows)
    let ?w = "logger (Info_Rows (length rows)) (logger Info_Fetching w)"
    from Inr rows have "snd (fetch_latest_sismos L E limit w) =
                   snd (fetch_loop L 0 (slice_to limit rows) [] ?w)"
      by (auto simp: fetch_latest_sismos_def Let_def split: prod.splits)
    then show ?thesis by (simp add: fetch_loop_uuid_count logger_def)
  qed
qed

text \<open>
  Claim C8. Two runs that receive the same response text and are given the same limit
  return the same records, whatever else differs between them: the status codes (as
  long as both are accepted), the state of the log and of the files, the values
  \<open>uuid4\<close> would produce, the store, the process environment. The source reads no clock
  on this path, and it draws no random value: the count of \<open>uuid4\<close> calls is the same
  after the run as before. Parsing is a function of the text.
\<close>

theorem fetch_deterministic:
  assumes "http E1 = Response status1 text" and "\<not> (400 \<le> status1 \<and> status1 < 600)"
    and "http E2 = Response status2 text" and "\<not> (400 \<le> status2 \<and> status2 < 600)"
  shows "fst (fetch_latest_sismos L E1 limit w1) = fst (fetch_latest_sismos L E2 limit w2)
       \<and> uuid_count (snd (fetch_latest_sismos L E1 limit w1)) = uuid_count w1
       \<and> uuid_count (snd (fetch_latest_sismos L E2 limit w2)) = uuid_count w2"
  by (simp add: fetch_results_on_response [OF assms(1,2)]
      fetch_results_on_response [OF assms(3,4)] fetch_loop_results fetch_uuid_count
      split: sum.splits)

theorem fetch_deterministic_witness:
  "fst (fetch_latest_sismos example_lib example_env 10 example_world) =
   fst (fetch_latest_sismos example_lib
         (example_env\<lparr>http := Response 203 (py ''page''), uuid4 := (\<lambda>k. [7, k]),
                       exit_error := Some (ClientError ''Throttling''),
                       environ := (\<lambda>k. Some ''x'')\<rparr>) 10
         (example_world\<lparr>log := [Info_Fetching], uuid_count := 5\<rparr>))"
proof -
  have h1: "http example_env = Response 200 (py ''page'')"
    by (simp add: example_env_def)
  have h2: "\<not> (400 \<le> (200::nat) \<and> (200::nat) < 600)" by simp
  have h3: "http (example_env\<lparr>http := Response 203 (py ''page''), uuid4 := (\<lambda>k. [7, k]),
                       exit_error := Some (ClientError ''Throttling''),
                       environ := (\<lambda>k. Some ''x'')\<rparr>) = Response 203 (py ''page'')"
    by simp
  have h4: "\<not> (400 \<le> (203::nat) \<and> (203::nat) < 600)" by simp
  from fetch_deterministic [OF h1 h2 h3 h4] show ?thesis by blast
qed

section \<open>The sinks\<close>

lemma dict_set_fresh: "\<not> dict_contains k d \<Longrightarrow> dict_set d k v = d @ [(k, v)]"
  by (induction d) (auto simp: dict_contains_def dict_keys_def)

lemma dict_contains_set: "dict_contains k (dict_set d k v)"
  by (induction d) (force simp: dict_contains_def dict_keys_def)+

lemma dict_to_list_covered:
  "list_all (\<lambda>k. k \<in> set fieldnames) (dict_keys it) \<Longrightarrow>
   dict_to_list fieldnames it = Inr (row_cells fieldnames it)"
  by (simp add: dict_to_list_def list_ex_iff list_all_iff)

lemma dict_to_list_cells:
  "dict_to_list fieldnames it = Inr cells \<Longrightarrow> cells = row_cells fieldnames it"
  by (simp add: dict_to_list_def split: if_splits)

lemma writerows_all:
  assumes "\<And>k. write_error E path k = None"
    and "list_all (\<lambda>it. list_all (\<lambda>k. k \<in> set fieldnames) (dict_keys it)) items"
    and "list_all (\<lambda>it. list_all utf8_encodable (row_cells fieldnames it)) items"
  shows "writerows E path fieldnames i items written =
         (None, Rows (written @ map (row_cells fieldnames) items))"
  using assms(2,3)
  by (induction items arbitrary: i written) (simp_all add: dict_to_list_covered assms(1))

lemma writerows_prefix:
  assumes "\<And>k. write_error E path k = None"
  shows "\<exists>n\<le>length items.
           snd (writerows E path fieldnames i items written) =
           Rows (written @ map (row_cells fieldnames) (take n items))"
proof (induction items arbitrary: i written)
  case Nil
  then show ?case by simp
next
  case (Cons it its)
  let ?stop = "\<exists>n\<le>length (it # its). Rows written =
                 Rows (written @ map (row_cells fieldnames) (take n (it # its)))"
  have stop: ?stop by (rule exI [of _ 0]) simp
  show ?case
  proof (cases "dict_to_list fieldnames it")
    case (Inl e)
    with stop show ?thesis by simp
  next
    case (Inr cells)
    then have cells: "cells = row_cells fieldnames it" by (rule dict_to_list_cells)
    show ?thesis
    proof (cases "list_all utf8_encodable cells")
      case False
      with Inr stop show ?thesis by simp
    next
      case True
      from Cons.IH [of "Suc i" "written @ [cells]"]
      obtain n where n: "n \<le> length its"
        and w: "snd (writerows E path fieldnames (Suc i) its (written @ [cells])) =
                Rows ((written @ [cells]) @ map (row_cells fieldnames) (take n its))"
        by blast
      have "Suc n \<le> length (it # its)" using n by simp
      moreover have "snd (writerows E path fieldnames i (it # its) written) =
                     Rows (written @ map (row_cells fieldnames) (take (Suc n) (it # its)))"
        using Inr True w by (simp add: assms cells)
      ultimately show ?thesis by blast
    qed
  qed
qed

lemma writerows_raised:
  assumes "\<And>k. write_error E path k = None"
    and "list_all (\<lambda>it. list_all (\<lambda>k. k \<in> set fieldnames) (dict_keys it)) items"
  shows "fst (writerows E path fieldnames i items written) =
         (if list_all (\<lambda>it. list_all utf8_encodable (row_cells fieldnames it)) items
          then None else Some UnicodeEncodeError)"
  using assms(2)
  by (induction items arbitrary: i written) (simp_all add: dict_to_list_covered assms(1))

lemma save_to_csv_empty:
  "save_to_csv E [] path w = (Inr (), logger Info_No_Items_CSV (record_event (Call_save_to_csv [] path) w))"
  by (simp add: save_to_csv_def Let_def)

lemma save_to_csv_nonempty:
  assumes "items \<noteq> []" and "open_error E path = None"
    and "\<And>k. write_error E path k = None" and "close_error E path = None"
    and "header_covers items" and "rows_encodable items"
  shows "save_to_csv E items path w =
         (Inr (), logger (Info_Saved_CSV (length items) path)
            ((record_event (Call_save_to_csv items path) w)
               \<lparr>files := (files w)(path \<mapsto> Rows (csv_rows items))\<rparr>))"
proof -
  from assms(1) obtain first rest where items: "items = first # rest"
    by (cases items) auto
  from assms(5)
  have c: "list_all (\<lambda>it. list_all (\<lambda>k. k \<in> set (dict_keys first)) (dict_keys it)) items"
    by (simp add: header_covers_def items)
  from assms(6)
  have e: "list_all (\<lambda>it. list_all utf8_encodable (row_cells (dict_keys first) it)) items"
    by (simp add: rows_encodable_def items)
  have "writerows E path (dict_keys first) 1 items [map py (dict_keys first)] =
      (None, Rows ([map py (dict_keys first)] @ map (row_cells (dict_keys first)) items))"
    by (rule writerows_all [OF assms(3) c e])
  then have "writerows E path (dict_keys first) 1 items [map py (dict_keys first)] =
             (None, Rows (csv_rows items))"
    by (simp add: csv_rows_def items)
  then show ?thesis
    using assms(2,4) by (simp add: save_to_csv_def Let_def items record_event_def assms(3))
qed

lemma save_to_csv_written:
  assumes "items \<noteq> []" and "open_error E path = None"
    and "\<And>k. write_error E path k = None" and "close_error E path = None"
  shows "\<exists>n\<le>length items.
           files (snd (save_to_csv E items path w)) =
           (files w)(path \<mapsto>
              Rows (map py (dict_keys (hd items)) #
                    map (row_cells (dict_keys (hd items))) (take n items)))"
proof -
  from assms(1) obtain first rest where items: "items = first # rest"
    by (cases items) auto
  from writerows_prefix [OF assms(3), of items "dict_keys first" 1 "[map py (dict_keys first)]"]
  obtain n where n: "n \<le> length items"
    and w: "snd (writerows E path (dict_keys first) 1 items [map py (dict_keys first)]) =
            Rows ([map py (dict_keys first)] @ map (row_cells (dict_keys first)) (take n items))"
    by blast
  obtain r c where rc: "writerows E path (dict_keys first) 1 items [map py (dict_keys first)] = (r, c)"
    by (cases "writerows E path (dict_keys first) 1 items [map py (dict_keys first)]") auto
  with w have c: "c = Rows (map py (dict_keys first) # map (row_cells (dict_keys first)) (take n items))"
    by simp
  have "files (snd (save_to_csv E items path w)) = (files w)(path \<mapsto> c)"
    using assms(2,4) rc [unfolded items]
    by (cases r) (simp_all add: save_to_csv_def Let_def items record_event_def logger_def assms(3))
  with n c show ?thesis by (auto simp: items)
qed

lemma save_to_csv_result:
  assumes "items \<noteq> []" and "open_error E path = None"
    and "\<And>k. write_error E path k = None" and "close_error E path = None"
    and "header_covers items"
  shows "fst (save_to_csv E items path w) =
         (if rows_encodable items then Inr () else Inl UnicodeEncodeError)"
proof -
  from assms(1) obtain first rest where items: "items = first # rest"
    by (cases items) auto
  from assms(5)
  have c: "list_all (\<lambda>it. list_all (\<lambda>k. k \<in> set (dict_keys first)) (dict_keys it)) items"
    by (simp add: header_covers_def items)
  obtain r c' where rc:
    "writerows E path (dict_keys first) 1 items [map py (dict_keys first)] = (r, c')"
    by (cases "writerows E path (dict_keys first) 1 items [map py (dict_keys first)]") auto
  from writerows_raised [OF assms(3) c, of 1 "[map py (dict_keys first)]"] rc
  have r: "r = (if rows_encodable items then None else Some UnicodeEncodeError)"
    by (simp add: rows_encodable_def items)
  show ?thesis
    using assms(2,4) rc [unfolded items] r
    by (simp add: save_to_csv_def Let_def items assms(3))
qed

lemma csv_rows_cell:
  assumes "j < length its" and "i < length (dict_keys (hd its))"
    and "map_of (its ! j) (dict_keys (hd its) ! i) = Some (Str v)"
  shows "tl (csv_rows its) ! j ! i = v"
  using assms by (simp add: csv_rows_def row_cells_def dict_get_def csv_cell_def)

text \<open>
  Claim C7, as the code has it. On an empty collection \<open>save_to_csv\<close> returns without
  touching any file. On a collection that is not empty, when the destination can be
  opened, written and closed without an I/O failure, no record has a field that the
  first record lacks and every cell can be encoded in UTF-8 (no lone surrogate), it
  returns normally and the destination then holds, whatever it held before, the
  header made of the first record's field names in insertion order followed by one row
  per record, each holding the record's texts in the columns of their fields; no other
  file changes.
\<close>

theorem save_to_csv_writes:
  "fst (save_to_csv E [] path w) = Inr ()
   \<and> files (snd (save_to_csv E [] path w)) = files w
   \<and> (items \<noteq> [] \<and> open_error E path = None \<and> (\<forall>k. write_error E path k = None)
        \<and> close_error E path = None \<and> header_covers items \<and> rows_encodable items \<longrightarrow>
        fst (save_to_csv E items path w) = Inr ()
        \<and> files (snd (save_to_csv E items path w)) = (files w)(path \<mapsto> Rows (csv_rows items))
        \<and> hd (csv_rows items) = map py (dict_keys (hd items))
        \<and> length (tl (csv_rows items)) = length items
        \<and> (\<forall>j<length items. \<forall>i<length (dict_keys (hd items)). \<forall>v.
              map_of (items ! j) (dict_keys (hd items) ! i) = Some (Str v) \<longrightarrow>
              tl (csv_rows items) ! j ! i = v))"
proof (intro conjI impI)
  show "fst (save_to_csv E [] path w) = Inr ()"
    by (simp add: save_to_csv_empty)
  show "files (snd (save_to_csv E [] path w)) = files w"
    by (simp add: save_to_csv_empty logger_def record_event_def)
next
  assume a: "items \<noteq> [] \<and> open_error E path = None \<and> (\<forall>k. write_error E path k = None)
        \<and> close_error E path = None \<and> header_covers items \<and> rows_encodable items"
  then have run: "save_to_csv E items path w =
         (Inr (), logger (Info_Saved_CSV (length items) path)
            ((record_event (Call_save_to_csv items path) w)
               \<lparr>files := (files w)(path \<mapsto> Rows (csv_rows items))\<rparr>))"
    by (intro save_to_csv_nonempty) simp_all
  show "fst (save_to_csv E items path w) = Inr ()"
    by (simp add: run)
  show "files (snd (save_to_csv E items path w)) = (files w)(path \<mapsto> Rows (csv_rows items))"
    by (simp add: run logger_def record_event_def)
  show "hd (csv_rows items) = map py (dict_keys (hd items))"
    by (simp add: csv_rows_def)
  show "length (tl (csv_rows items)) = length items"
    by (simp add: csv_rows_def)
  show "\<forall>j<length items. \<forall>i<length (dict_keys (hd items)). \<forall>v.
              map_of (items ! j) (dict_keys (hd items) ! i) = Some (Str v) \<longrightarrow>
              tl (csv_rows items) ! j ! i = v"
    by (blast intro: csv_rows_cell)
qed

theorem save_to_csv_writes_witness:
  "fst (save_to_csv example_env [example_item_long, example_item_short] ''sismos.csv''
          example_world_old_file) = Inr ()
   \<and> files (snd (save_to_csv example_env [example_item_long, example_item_short] ''sismos.csv''
          example_world_old_file)) ''sismos.csv''
       = Some (Rows [map py four_fields,
               [py ''Lima , 10km'', py ''https://ultimosismo.igp.gob.pe/reporte/123'',
                py ''01/01/2024 10:00:00'', py ''4.5''],
               [py ''Ica'', [], [], []]])"
proof -
  have h: "header_covers [example_item_long, example_item_short]"
    by (simp add: header_covers_def example_item_long_def example_item_short_def dict_keys_def)
  have o: "open_error example_env ''sismos.csv'' = None"
    "\<forall>k. write_error example_env ''sismos.csv'' k = None"
    "close_error example_env ''sismos.csv'' = None"
    by (simp_all add: example_env_def)
  have r: "csv_rows [example_item_long, example_item_short] =
           [map py four_fields,
            [py ''Lima , 10km'', py ''https://ultimosismo.igp.gob.pe/reporte/123'',
             py ''01/01/2024 10:00:00'', py ''4.5''],
            [py ''Ica'', [], [], []]]"
    by (simp add: csv_rows_def row_cells_def example_item_long_def example_item_short_def
        dict_keys_def four_fields_def dict_get_def csv_cell_def)
  have e: "rows_encodable [example_item_long, example_item_short]"
    by (simp add: rows_encodable_def row_cells_def example_item_long_def example_item_short_def
        dict_keys_def dict_get_def csv_cell_def utf8_encodable_def is_surrogate_def py_def)
  from save_to_csv_writes [of example_env "''sismos.csv''" example_world_old_file
      "[example_item_long, example_item_short]"] h o r e
  show ?thesis by simp
qed

text \<open>
  The claim as it is stated, for every collection, fails on a collection whose second
  record has a field the first one lacks: \<open>DictWriter.writerow\<close> raises
  \<open>ValueError\<close>, and the file is left with the header and the first row only. It
  fails as well on a record with a lone surrogate in a text: the encoder raises
  \<open>UnicodeEncodeError\<close>, and the file is left with the header only.
\<close>

theorem save_to_csv_extra_field_counterexample:
  "fst (save_to_csv example_env [example_item_short, example_item_with_id] ''sismos.csv''
          example_world) = Inl (ValueError ''dict contains fields not in fieldnames'')
   \<and> files (snd (save_to_csv example_env [example_item_short, example_item_with_id]
          ''sismos.csv'' example_world)) ''sismos.csv''
       = Some (Rows [map py four_fields, [py ''Ica'', [], [], []]])
   \<and> fst (save_to_csv example_env [example_item_surrogate] ''sismos.csv'' example_world)
       = Inl UnicodeEncodeError
   \<and> files (snd (save_to_csv example_env [example_item_surrogate] ''sismos.csv''
          example_world)) ''sismos.csv''
       = Some (Rows [map py four_fields])"
  by (simp add: save_to_csv_def Let_def example_env_def example_world_def record_event_def
      example_item_short_def example_item_with_id_def example_item_surrogate_def
      dict_to_list_def row_cells_def dict_keys_def dict_get_def csv_cell_def four_fields_def
      utf8_encodable_def is_surrogate_def py_def)

lemma csv_calls_append: "csv_calls (xs @ ys) = csv_calls xs @ csv_calls ys"
  by (induction xs rule: csv_calls.induct) simp_all

lemma put_items_added:
  "put_items E i items w = (r, items', w') \<Longrightarrow> list_all2 id_added items items'"
proof (induction items arbitrary: i w r items' w')
  case Nil
  then show ?case by simp
next
  case (Cons it its)
  have f: "id_added it (dict_set it ''id'' v)" if "\<not> dict_contains ''id'' it" for v
    using that by (simp add: id_added_def dict_set_fresh dict_keys_def)
  have s: "id_added x x" for x by (simp add: id_added_def)
  have ss: "list_all2 id_added xs xs" for xs
    by (simp add: list_all2_same s)
  from Cons.prems Cons.IH show ?case
    by (auto simp: Let_def f s ss split: if_splits option.splits prod.splits)
qed

lemma put_items_hd:
  "put_items E i (it # its) w = (r, items', w') \<Longrightarrow> dict_contains ''id'' (hd items')"
  by (auto simp: Let_def dict_contains_set split: if_splits option.splits prod.splits)

lemma put_items_first_id:
  "\<not> dict_contains ''id'' it \<Longrightarrow> put_items E i (it # its) w = (r, items', w') \<Longrightarrow>
   hd items' = it @ [(''id'', Str (uuid4 E (uuid_count w)))]"
  by (auto simp: Let_def dict_set_fresh split: option.splits prod.splits)

lemma put_items_no_error:
  "(\<And>j. put_error E j = None) \<Longrightarrow> put_items E i items w = (r, items', w') \<Longrightarrow>
   r = None \<and> list_all (dict_contains ''id'') items'"
proof (induction items arbitrary: i w r items' w')
  case Nil
  then show ?case by simp
next
  case (Cons it its)
  from Cons.prems Cons.IH [OF Cons.prems(1)] show ?case
    by (auto simp: Let_def dict_contains_set split: if_splits option.splits prod.splits)
qed

lemma put_items_world:
  "put_items E i items w = (r, items', w') \<Longrightarrow>
   csv_calls (trace w') = csv_calls (trace w) \<and> files w' = files w"
proof (induction items arbitrary: i w r items' w')
  case Nil
  then show ?case by simp
next
  case (Cons it its)
  from Cons.prems show ?case
    by (auto simp: Let_def record_event_def csv_calls_append
        split: if_splits option.splits prod.splits dest!: Cons.IH)
qed

lemma with_batch_writer_props:
  assumes "with_batch_writer E items w = (r, items', w')"
  shows "list_all2 id_added items items'"
    and "items \<noteq> [] \<Longrightarrow> dict_contains ''id'' (hd items')"
    and "(\<And>j. put_error E j = None) \<Longrightarrow> list_all (dict_contains ''id'') items'"
    and "csv_calls (trace w') = csv_calls (trace w)"
    and "files w' = files w"
    and "items \<noteq> [] \<Longrightarrow> \<not> dict_contains ''id'' (hd items) \<Longrightarrow>
         hd items' = hd items @ [(''id'', Str (uuid4 E (uuid_count w)))]"
proof -
  obtain r0 w0 where p: "put_items E 0 items w = (r0, items', w0)"
    and w': "w' = record_event Batch_exit w0"
    using assms
    by (auto simp: with_batch_writer_def Let_def split: prod.splits option.splits)
  show "list_all2 id_added items items'"
    by (rule put_items_added [OF p])
  show "dict_contains ''id'' (hd items')" if "items \<noteq> []"
  proof -
    from that obtain it its where items: "items = it # its" by (cases items) auto
    from p show ?thesis unfolding items by (rule put_items_hd)
  qed
  show "list_all (dict_contains ''id'') items'" if "\<And>j. put_error E j = None"
    using put_items_no_error [OF that p] by simp
  from put_items_world [OF p] show "csv_calls (trace w') = csv_calls (trace w)"
    by (simp add: w' record_event_def csv_calls_append)
  from put_items_world [OF p] show "files w' = files w"
    by (simp add: w' record_event_def)
  show "hd items' = hd items @ [(''id'', Str (uuid4 E (uuid_count w)))]"
    if "items \<noteq> []" and n: "\<not> dict_contains ''id'' (hd items)"
  proof -
    from that obtain it its where items: "items = it # its" by (cases items) auto
    from n have "\<not> dict_contains ''id'' it" by (simp add: items)
    then show ?thesis using p unfolding items by (simp only: list.sel) (rule put_items_first_id)
  qed
qed

lemma save_to_dynamodb_False:
  assumes "save_to_dynamodb E items t w = (Inr False, items', w')"
  shows "items \<noteq> []"
    and "list_all2 id_added items items'"
    and "dict_contains ''id'' (hd items')"
    and "(\<And>j. put_error E j = None) \<Longrightarrow> list_all (dict_contains ''id'') items'"
    and "csv_calls (trace w') = csv_calls (trace w)"
    and "files w' = files w"
    and "\<not> dict_contains ''id'' (hd items) \<Longrightarrow>
         hd items' = hd items @ [(''id'', Str (uuid4 E (uuid_count w)))]"
proof -
  show ne: "items \<noteq> []"
    using assms by (auto simp: save_to_dynamodb_def Let_def)
  let ?w1 = "record_event Boto3_resource (record_event (Call_save_to_dynamodb items t) w)"
  obtain r w2 where b: "with_batch_writer E items ?w1 = (r, items', w2)"
    and w': "csv_calls (trace w') = csv_calls (trace w2)" "files w' = files w2"
    using assms ne
    by (auto simp: save_to_dynamodb_def Let_def logger_def
        split: option.splits prod.splits if_splits)
  note props = with_batch_writer_props [OF b]
  show "list_all2 id_added items items'" by (rule props(1))
  show "dict_contains ''id'' (hd items')" by (rule props(2) [OF ne])
  show "list_all (dict_contains ''id'') items'" if "\<And>j. put_error E j = None"
    by (rule props(3) [OF that])
  show "csv_calls (trace w') = csv_calls (trace w)"
    by (simp add: w' props(4) record_event_def csv_calls_append)
  show "files w' = files w"
    by (simp add: w' props(5) record_event_def)
  show "hd items' = hd items @ [(''id'', Str (uuid4 E (uuid_count w)))]"
    if "\<not> dict_contains ''id'' (hd items)"
    using props(6) [OF ne that] by (simp add: record_event_def)
qed


section \<open>The persistence policy\<close>

lemmas sink_defs =
  truthy_def save_to_dynamodb_def with_batch_writer_def save_to_csv_def Let_def
  record_event_def logger_def dict_contains_def dict_keys_def is_ClientError_def
  dict_to_list_def row_cells_def dict_get_def csv_cell_def utf8_encodable_def
  is_surrogate_def

lemma py_int_example: "py_int example_lib ''10'' = Inr 10"
  by (simp add: example_lib_def)

lemma fetch_example_run:
  assumes "http E = Response 200 (py ''page'')"
  shows "fetch_latest_sismos example_lib E 10 w =
         (Inr [example_item_long, example_item_short],
          logger (Info_Rows 2) (logger Info_Fetching w))"
  using assms
  by (simp add: fetch_latest_sismos_def http_get_def raise_for_status_def Let_def
      select_example_page slice_to_def parse_example_row_long parse_example_row_short
      numeral_2_eq_2)

lemma lambda_handler_example_run:
  assumes "http E = Response 200 (py ''page'')" and "environ E ''LIMIT'' = None"
  shows "lambda_handler example_lib E w =
         lambda_handler_persist E [example_item_long, example_item_short]
           (logger (Info_Rows 2) (logger Info_Fetching w))"
  by (simp add: lambda_handler_def environ_get_def assms(2) py_int_example
      fetch_example_run [OF assms(1)])

lemma save_to_dynamodb_empty:
  "save_to_dynamodb E [] t w =
   (Inr True, [], logger Info_No_Items_DynamoDB (record_event (Call_save_to_dynamodb [] t) w))"
  by (simp add: save_to_dynamodb_def Let_def)

lemma save_to_dynamodb_ClientError:
  assumes "items \<noteq> []" and "resource_error E = None"
    and "fst (with_batch_writer E items
           (record_event Boto3_resource (record_event (Call_save_to_dynamodb items t) w)))
         = Some (ClientError m)"
  shows "fst (save_to_dynamodb E items t w) = Inr False"
  using assms
  by (auto simp: save_to_dynamodb_def Let_def is_ClientError_def split: prod.splits)

lemma save_to_dynamodb_propagates:
  assumes "items \<noteq> []" and "resource_error E = None"
    and "exit_error E = Some e" and "\<not> is_ClientError e"
  shows "fst (save_to_dynamodb E items t w) = Inl e"
  using assms
  by (auto simp: save_to_dynamodb_def with_batch_writer_def Let_def split: prod.splits)

text \<open>
  Claim C3. The claim: on a collection that is not empty the keyed-store sink returns a
  failure result, and does not raise, whenever the remote write fails, connectivity
  errors included; on an empty collection it makes no remote call and returns success.
  The empty case and the failure with a \<open>ClientError\<close> (throttling) are as claimed
  (\<open>save_to_dynamodb_empty\<close>, \<open>save_to_dynamodb_ClientError\<close>). But line 99 catches
  \<open>ClientError\<close> only, and any other exception of the flush propagates
  (\<open>save_to_dynamodb_propagates\<close>): with an endpoint that cannot be reached the flush
  raises \<open>EndpointConnectionError\<close>, which is no \<open>ClientError\<close>, and
  \<open>save_to_dynamodb\<close> raises it instead of returning \<open>False\<close>.
\<close>

theorem save_to_dynamodb_unreachable_raises:
  "fst (save_to_dynamodb example_env_unreachable [example_item_long] ''sismos'' example_world)
   = Inl (BotoCoreError ''EndpointConnectionError'')"
  by (simp add: sink_defs example_env_unreachable_def example_env_table_def example_env_def
      example_world_def example_item_long_def)

text \<open>
  Claim C2. The claim: the keyed-store sink is tried first when a table is configured,
  a success ends the call, a failure or an absent table leads to exactly one call of
  the tabular sink, and no exception but an I/O failure of the tabular sink reaches
  the caller. With a table configured and an endpoint that cannot be reached,
  \<open>lambda_handler\<close> raises \<open>EndpointConnectionError\<close>, the tabular sink is never
  called and no file is written, against the handler's own docstring (on failure,
  save to \<open>sismos.csv\<close>).
\<close>

theorem lambda_handler_unreachable_raises:
  "fst (lambda_handler example_lib example_env_unreachable example_world)
     = Inl (BotoCoreError ''EndpointConnectionError'')
   \<and> csv_calls (trace (snd (lambda_handler example_lib example_env_unreachable example_world))) = []
   \<and> files (snd (lambda_handler example_lib example_env_unreachable example_world)) ''sismos.csv''
     = None"
proof -
  have h: "http example_env_unreachable = Response 200 (py ''page'')"
    by (simp add: example_env_unreachable_def example_env_table_def example_env_def)
  have l: "environ example_env_unreachable ''LIMIT'' = None"
    by (simp add: example_env_unreachable_def example_env_table_def example_env_def)
  show ?thesis
    unfolding lambda_handler_example_run [OF h l]
    by (simp add: lambda_handler_persist_def sink_defs example_env_unreachable_def
        example_env_table_def example_env_def example_world_def
        example_item_long_def example_item_short_def)
qed

lemma parse_row_keys: "parse_row L r = Inr it \<Longrightarrow> dict_keys it = four_fields"
  by (auto simp: parse_row_def Let_def dict_keys_def four_fields_def split: sum.splits)

lemma fetch_result_keys:
  assumes "fst (fetch_latest_sismos L E limit w) = Inr rs"
  shows "list_all (\<lambda>it. dict_keys it = four_fields) rs"
proof (cases "http_get E")
  case (Inl e)
  with assms show ?thesis by (simp add: fetch_on_failure)
next
  case (Inr body)
  from Inr assms obtain rows where rows: "select_rows L body = Inr rows"
    by (cases "select_rows L body") (auto simp: fetch_latest_sismos_def Let_def)
  let ?rows = "slice_to limit rows"
  let ?w = "logger (Info_Rows (length rows)) (logger Info_Fetching w)"
  from Inr rows assms have "rs = fst (fetch_loop L 0 ?rows [] ?w)"
    by (auto simp: fetch_latest_sismos_def Let_def split: prod.splits)
  then have rs: "rs = map (\<lambda>r. projr (parse_row L r)) (filter (\<lambda>r. \<not> isl (parse_row L r)) ?rows)"
    by (simp add: fetch_loop_results)
  have "dict_keys (projr (parse_row L r)) = four_fields" if "\<not> isl (parse_row L r)" for r
    using that by (cases "parse_row L r") (simp_all add: parse_row_keys)
  then show ?thesis by (simp add: rs list_all_iff)
qed

lemma id_not_four: "''id'' \<notin> set four_fields"
  by (simp add: four_fields_def)

lemma id_added_keys:
  assumes "dict_keys it = four_fields" and "id_added it it'"
  shows "dict_keys it' = four_fields \<or> dict_keys it' = four_fields @ [''id'']"
  using assms by (auto simp: id_added_def)

lemma id_added_all_keys:
  "list_all2 id_added items items' \<Longrightarrow> list_all (\<lambda>it. dict_keys it = four_fields) items \<Longrightarrow>
   list_all (\<lambda>it. dict_keys it = four_fields \<or> dict_keys it = four_fields @ [''id'']) items'"
  by (induction rule: list_all2_induct) (auto dest: id_added_keys)

lemma keys_with_id:
  assumes "dict_keys it = four_fields \<or> dict_keys it = four_fields @ [''id'']"
    and "dict_contains ''id'' it"
  shows "dict_keys it = four_fields @ [''id'']"
  using assms id_not_four by (auto simp: dict_contains_def)

lemma header_covers_with_id:
  assumes "list_all (\<lambda>it. dict_keys it = four_fields \<or> dict_keys it = four_fields @ [''id'']) its"
    and "dict_keys (hd its) = four_fields @ [''id'']"
  shows "header_covers its"
  using assms by (auto simp: header_covers_def list_all_iff)


lemma save_to_csv_trace:
  "csv_calls (trace (snd (save_to_csv E its path w))) = csv_calls (trace w) @ [its]"
  by (auto simp: save_to_csv_def Let_def record_event_def logger_def csv_calls_append
      split: list.splits option.splits prod.splits)

lemma persist_fallback:
  assumes "environ E ''DDB_TABLE'' = Some t" and "t \<noteq> []"
    and "save_to_dynamodb E items t w = (Inr False, items', w1)"
  shows "lambda_handler_persist E items w =
         (case save_to_csv E items' (environ_get E ''CSV_PATH'' ''sismos.csv'') w1 of
            (Inl e, w2) \<Rightarrow> (Inl e, w2)
          | (Inr _, w2) \<Rightarrow> (Inr (200, items'), w2))"
  using assms by (simp add: lambda_handler_persist_def truthy_def)

lemma after_failed_write:
  assumes "list_all (\<lambda>it. dict_keys it = four_fields) items"
    and "save_to_dynamodb E items t w = (Inr False, items', w1)"
  shows "items' \<noteq> []"
    and "items' \<noteq> items"
    and "list_all (\<lambda>it. dict_keys it = four_fields \<or> dict_keys it = four_fields @ [''id'']) items'"
    and "dict_keys (hd items') = four_fields @ [''id'']"
    and "header_covers items'"
proof -
  note f = save_to_dynamodb_False [OF assms(2)]
  from f(1,2) show ne: "items' \<noteq> []"
    by (auto simp: list_all2_Cons1 neq_Nil_conv)
  show ks: "list_all (\<lambda>it. dict_keys it = four_fields \<or> dict_keys it = four_fields @ [''id'']) items'"
    by (rule id_added_all_keys [OF f(2) assms(1)])
  from ne ks have "dict_keys (hd items') = four_fields \<or> dict_keys (hd items') = four_fields @ [''id'']"
    by (cases items') simp_all
  then show hd: "dict_keys (hd items') = four_fields @ [''id'']"
    using f(3) by (rule keys_with_id)
  show "header_covers items'"
    by (rule header_covers_with_id [OF ks hd])
  show "items' \<noteq> items"
  proof
    assume "items' = items"
    with hd f(1) assms(1) have "four_fields = four_fields @ [''id'']"
      by (cases items) auto
    then show False by simp
  qed
qed

lemma snd_case_result:
  "snd (case p of (Inl e, w2) \<Rightarrow> (Inl e, w2) | (Inr u, w2) \<Rightarrow> (Inr (f u), w2)) = snd p"
  by (auto split: prod.splits sum.splits)



text \<open>
  Claim C9. The keyed-store sink adds the \<open>id\<close> to the caller's dictionaries. When a
  table is configured, the fetched records are handed to it and it reports failure,
  the tabular sink is called once, with those same records as the loop left them:
  each is the fetched record, unchanged or with an \<open>id\<close> added after its four
  fields; the first one always carries the \<open>id\<close>, the first value \<open>uuid4\<close> gave, and
  all of them do when no \<open>put_item\<close> raised (the failure came from the flush on
  leaving). This collection differs from what \<open>fetch_latest_sismos\<close> returned. When the
  destination can be opened, written and closed, the file then holds the header with
  the \<open>id\<close> column and, under it, the rows of the first records, of all of them when
  every cell can be encoded; every row written holds the texts of its record in their
  columns, the \<open>id\<close> in the fifth. The returned body carries the ids as well; the
  handler raises \<open>UnicodeEncodeError\<close> instead when a cell cannot be encoded.
\<close>

theorem fallback_sees_ids:
  assumes "environ E ''DDB_TABLE'' = Some t" and "t \<noteq> []"
    and "fst (fetch_latest_sismos L E limit w0) = Inr items"
    and "fst (save_to_dynamodb E items t w) = Inr False"
    and "open_error E (environ_get E ''CSV_PATH'' ''sismos.csv'') = None"
    and "\<forall>k. write_error E (environ_get E ''CSV_PATH'' ''sismos.csv'') k = None"
    and "close_error E (environ_get E ''CSV_PATH'' ''sismos.csv'') = None"
  shows "\<exists>items' rows. fst (snd (save_to_dynamodb E items t w)) = items'
      \<and> csv_calls (trace (snd (lambda_handler_persist E items w))) = csv_calls (trace w) @ [items']
      \<and> items' \<noteq> items \<and> list_all2 id_added items items'
      \<and> hd items' = hd items @ [(''id'', Str (uuid4 E (uuid_count w)))]
      \<and> dict_keys (hd items') = four_fields @ [''id'']
      \<and> ((\<forall>j. put_error E j = None) \<longrightarrow>
            list_all (\<lambda>it. dict_keys it = four_fields @ [''id'']) items')
      \<and> files (snd (lambda_handler_persist E items w)) (environ_get E ''CSV_PATH'' ''sismos.csv'')
          = Some (Rows (map py (four_fields @ [''id'']) # rows))
      \<and> length rows \<le> length items'
      \<and> (\<forall>j<length rows. \<forall>i<5. \<forall>v.
            map_of (items' ! j) ((four_fields @ [''id'']) ! i) = Some (Str v) \<longrightarrow>
            rows ! j ! i = v)
      \<and> (rows_encodable items' \<longrightarrow>
            length rows = length items'
            \<and> fst (lambda_handler_persist E items w) = Inr (200, items'))
      \<and> (\<not> rows_encodable items' \<longrightarrow>
            fst (lambda_handler_persist E items w) = Inl UnicodeEncodeError)"
proof -
  let ?path = "environ_get E ''CSV_PATH'' ''sismos.csv''"
  let ?hdr = "four_fields @ [''id'']"
  from assms(4) obtain items' w1 where sd: "save_to_dynamodb E items t w = (Inr False, items', w1)"
    by (cases "save_to_dynamodb E items t w") auto
  have keys: "list_all (\<lambda>it. dict_keys it = four_fields) items"
    by (rule fetch_result_keys [OF assms(3)])
  note a = after_failed_write [OF keys sd]
  note f = save_to_dynamodb_False [OF sd]
  from assms(6) have wr: "\<And>k. write_error E ?path k = None" by simp
  have run: "lambda_handler_persist E items w =
         (case save_to_csv E items' ?path w1 of
            (Inl e, w2) \<Rightarrow> (Inl e, w2)
          | (Inr _, w2) \<Rightarrow> (Inr (200, items'), w2))"
    by (rule persist_fallback [OF assms(1,2) sd])
  have res: "fst (save_to_csv E items' ?path w1) =
             (if rows_encodable items' then Inr () else Inl UnicodeEncodeError)"
    by (rule save_to_csv_result [OF a(1) assms(5) wr assms(7) a(5)])
  from save_to_csv_written [OF a(1) assms(5) wr assms(7), of w1]
  obtain n where n: "n \<le> length items'"
    and fl: "files (snd (save_to_csv E items' ?path w1)) =
             (files w1)(?path \<mapsto> Rows (map py (dict_keys (hd items')) #
                map (row_cells (dict_keys (hd items'))) (take n items')))"
    by blast
  let ?rows = "map (row_cells ?hdr) (take n items')"
  have c1: "fst (snd (save_to_dynamodb E items t w)) = items'"
    by (simp add: sd)
  have c2: "csv_calls (trace (snd (lambda_handler_persist E items w))) = csv_calls (trace w) @ [items']"
    by (simp add: run snd_case_result save_to_csv_trace f(5))
  from f(1) keys have "\<not> dict_contains ''id'' (hd items)"
    by (cases items) (simp_all add: dict_contains_def id_not_four)
  then have c3: "hd items' = hd items @ [(''id'', Str (uuid4 E (uuid_count w)))]"
    by (rule f(7))
  have c6: "list_all (\<lambda>it. dict_keys it = ?hdr) items'"
    if "\<forall>j. put_error E j = None"
  proof -
    from that have "list_all (dict_contains ''id'') items'" by (intro f(4)) simp
    with a(3) show ?thesis
      by (auto simp: list_all_iff intro: keys_with_id)
  qed
  have c7: "files (snd (lambda_handler_persist E items w)) ?path = Some (Rows (map py ?hdr # ?rows))"
    by (simp add: run snd_case_result fl a(4))
  have c8: "length ?rows \<le> length items'"
    using n by simp
  have c9: "?rows ! j ! i = v"
    if "j < length ?rows" and "i < 5" and "map_of (items' ! j) (?hdr ! i) = Some (Str v)" for j i v
  proof -
    from that(1) have j: "j < n" "j < length items'" using n by simp_all
    from that(2) have i: "i < length ?hdr" by (simp add: four_fields_def)
    from j have "?rows ! j = row_cells ?hdr (items' ! j)" by simp
    moreover from i have "row_cells ?hdr (items' ! j) ! i =
                          csv_cell (dict_get (items' ! j) (?hdr ! i) (Str []))"
      unfolding row_cells_def by (rule nth_map)
    ultimately show ?thesis
      using that(3) by (simp add: dict_get_def csv_cell_def)
  qed
  have full: "n = length items'" if e: "rows_encodable items'"
  proof -
    have "save_to_csv E items' ?path w1 =
         (Inr (), logger (Info_Saved_CSV (length items') ?path)
            ((record_event (Call_save_to_csv items' ?path) w1)
               \<lparr>files := (files w1)(?path \<mapsto> Rows (csv_rows items'))\<rparr>))"
      by (rule save_to_csv_nonempty [OF a(1) assms(5) wr assms(7) a(5) e])
    with fl have eq: "(files w1)(?path \<mapsto> Rows (csv_rows items')) =
                 (files w1)(?path \<mapsto> Rows (map py (dict_keys (hd items')) #
                    map (row_cells (dict_keys (hd items'))) (take n items')))"
      by (simp add: logger_def record_event_def)
    from fun_cong [OF eq, of ?path]
    have "map (row_cells (dict_keys (hd items'))) items' =
          map (row_cells (dict_keys (hd items'))) (take n items')"
      by (simp add: csv_rows_def)
    then have "length items' = length (take n items')"
      by (rule map_eq_imp_length_eq)
    then have "length items' = min (length items') n"
      by (simp only: length_take)
    with n show ?thesis by linarith
  qed
  have c10: "length ?rows = length items' \<and> fst (lambda_handler_persist E items w) = Inr (200, items')"
    if e: "rows_encodable items'"
  proof -
    from res e have "fst (save_to_csv E items' ?path w1) = Inr ()" by simp
    then have "fst (lambda_handler_persist E items w) = Inr (200, items')"
      by (cases "save_to_csv E items' ?path w1") (simp add: run)
    with full [OF e] show ?thesis by simp
  qed
  have c11: "fst (lambda_handler_persist E items w) = Inl UnicodeEncodeError"
    if e: "\<not> rows_encodable items'"
  proof -
    from res e have "fst (save_to_csv E items' ?path w1) = Inl UnicodeEncodeError" by simp
    then show ?thesis
      by (cases "save_to_csv E items' ?path w1") (simp add: run)
  qed
  from c1 c2 a(2) f(2) c3 a(4) c6 c7 c8 c9 c10 c11 show ?thesis by blast
qed


theorem fallback_sees_ids_witness:
  "files (snd (lambda_handler_persist example_env_throttled
                 [example_item_long, example_item_short] example_world)) ''sismos.csv''
     = Some (Rows [map py (four_fields @ [''id'']),
               [py ''Lima , 10km'', py ''https://ultimosismo.igp.gob.pe/reporte/123'',
                py ''01/01/2024 10:00:00'', py ''4.5'', [0]],
               [py ''Ica'', [], [], [], [1]]])
   \<and> (\<exists>items'. csv_calls (trace (snd (lambda_handler_persist example_env_throttled
                 [example_item_long, example_item_short] example_world))) = [items']
         \<and> items' \<noteq> [example_item_long, example_item_short]
         \<and> hd items' = example_item_long @ [(''id'', Str [0])]
         \<and> list_all (\<lambda>it. dict_keys it = four_fields @ [''id'']) items')"
proof -
  have h1: "environ example_env_throttled ''DDB_TABLE'' = Some ''sismos''"
    by (simp add: example_env_throttled_def example_env_table_def example_env_def)
  have h2: "''sismos'' \<noteq> []" by simp
  have h3: "fst (fetch_latest_sismos example_lib example_env_throttled 10 example_world) =
            Inr [example_item_long, example_item_short]"
    by (rule fetch_example_page [of _ 200])
      (simp_all add: example_env_throttled_def example_env_table_def example_env_def)
  have h4: "fst (save_to_dynamodb example_env_throttled [example_item_long, example_item_short]
              ''sismos'' example_world) = Inr False"
    by (simp add: sink_defs example_env_throttled_def example_env_table_def example_env_def
        example_world_def example_item_long_def example_item_short_def)
  have h5: "open_error example_env_throttled
              (environ_get example_env_throttled ''CSV_PATH'' ''sismos.csv'') = None"
    "\<forall>k. write_error example_env_throttled
              (environ_get example_env_throttled ''CSV_PATH'' ''sismos.csv'') k = None"
    "close_error example_env_throttled
              (environ_get example_env_throttled ''CSV_PATH'' ''sismos.csv'') = None"
    by (simp_all add: example_env_throttled_def example_env_table_def example_env_def)
  have h6: "\<forall>j. put_error example_env_throttled j = None"
    by (simp add: example_env_throttled_def example_env_table_def example_env_def)
  have h7: "csv_calls (trace example_world) = []" "uuid_count example_world = 0"
    by (simp_all add: example_world_def)
  have u: "uuid4 example_env_throttled 0 = [0]"
    by (simp add: example_env_throttled_def example_env_table_def example_env_def)
  have written: "files (snd (lambda_handler_persist example_env_throttled
                 [example_item_long, example_item_short] example_world)) ''sismos.csv''
     = Some (Rows [map py (four_fields @ [''id'']),
               [py ''Lima , 10km'', py ''https://ultimosismo.igp.gob.pe/reporte/123'',
                py ''01/01/2024 10:00:00'', py ''4.5'', [0]],
               [py ''Ica'', [], [], [], [1]]])"
    by (simp add: lambda_handler_persist_def environ_get_def sink_defs example_env_throttled_def
        example_env_table_def example_env_def example_world_def example_item_long_def
        example_item_short_def four_fields_def py_def)
  from fallback_sees_ids [OF h1 h2 h3 h4 h5] h6 h7 u
  have "\<exists>items'. csv_calls (trace (snd (lambda_handler_persist example_env_throttled
                 [example_item_long, example_item_short] example_world))) = [items']
         \<and> items' \<noteq> [example_item_long, example_item_short]
         \<and> hd items' = example_item_long @ [(''id'', Str [0])]
         \<and> list_all (\<lambda>it. dict_keys it = four_fields @ [''id'']) items'"
    by auto
  with written show ?thesis by blast
qed






end
